theory Spec2Isabelle
  imports Main "HOL-Library.Word"
begin

section \<open>Data model of \<^verbatim>\<open>containers.hpp\<close>\<close>

text \<open>
  The header is read for a 64-bit target: \<^verbatim>\<open>ssize_t\<close> and every object pointer are
  64 bits wide. A pointer is modelled by the address it holds, so that
  \<^verbatim>\<open>c != other.c\<close> is a comparison of two addresses and never reads the pointee. The null
  pointer is the address 0 and is a value like any other.
\<close>

type_synonym ssize_t = "64 word"  \<comment> \<open>read as two's complement with \<open>sint\<close>\<close>

type_synonym mmi_ptr = "64 word"  \<comment> \<open>\<^verbatim>\<open>const rtwCAPI_ModelMappingInfo *\<close>\<close>

record map_key_2s =
  a :: string
  b :: string
  c :: mmi_ptr

record map_key_1s =
  a :: string
  c :: mmi_ptr

subsection \<open>\<^verbatim>\<open>std::string\<close> comparison\<close>

text \<open>
  \<^verbatim>\<open>operator==\<close> of \<^verbatim>\<open>std::string\<close>: the two strings have the same size and the same
  character at every position. The loop over the characters is the recursion.
\<close>

fun string_eq :: "string \<Rightarrow> string \<Rightarrow> bool" where
  "string_eq [] [] = True"
| "string_eq (x # xs) (y # ys) = (x = y \<and> string_eq xs ys)"
| "string_eq [] (y # ys) = False"
| "string_eq (x # xs) [] = False"

subsection \<open>\<^verbatim>\<open>operator==\<close> of the two key classes\<close>

text \<open>
  \<^verbatim>\<open>
  bool operator==(const map_key_2s &other) const{
      if(c != other.c) return false;
      return ((a == other.a) && (b == other.b));
  }
  \<close>
\<close>

definition map_key_2s_operator_eq :: "map_key_2s \<Rightarrow> map_key_2s \<Rightarrow> bool" where
  "map_key_2s_operator_eq this other =
     (if map_key_2s.c this \<noteq> map_key_2s.c other then False
      else (string_eq (map_key_2s.a this) (map_key_2s.a other)
            \<and> string_eq (map_key_2s.b this) (map_key_2s.b other)))"

text \<open>
  \<^verbatim>\<open>
  bool operator==(const map_key_1s &other) const{
      if(c != other.c) return false;
      return (a == other.a);
  }
  \<close>
\<close>

definition map_key_1s_operator_eq :: "map_key_1s \<Rightarrow> map_key_1s \<Rightarrow> bool" where
  "map_key_1s_operator_eq this other =
     (if map_key_1s.c this \<noteq> map_key_1s.c other then False
      else string_eq (map_key_1s.a this) (map_key_1s.a other))"

subsection \<open>\<^verbatim>\<open>Compare\<close>\<close>

text \<open>
  \<^verbatim>\<open>operator<\<close> of \<^verbatim>\<open>std::string\<close>: lexicographic, characters compared as unsigned
  bytes, a proper prefix before the longer string.
\<close>

fun string_less :: "string \<Rightarrow> string \<Rightarrow> bool" where
  "string_less [] [] = False"
| "string_less [] (y # ys) = True"
| "string_less (x # xs) [] = False"
| "string_less (x # xs) (y # ys) =
     (if (of_char x :: nat) < of_char y then True
      else if (of_char y :: nat) < of_char x then False
      else string_less xs ys)"

text \<open>
  Modelled from the spec: the bodies of the two \<^verbatim>\<open>Compare::operator()\<close> overloads are
  missing, the header only declares them (lines 37 to 40). The spec asks for a strict weak
  ordering, lexicographic over the fields that equality compares. The model orders by the
  address held in \<open>c\<close> first, then by the name string \<open>a\<close>, then (two-string key) by \<open>b\<close>,
  the order in which \<^verbatim>\<open>operator==\<close> reads the fields.
\<close>

definition Compare_2s :: "map_key_2s \<Rightarrow> map_key_2s \<Rightarrow> bool" where
  "Compare_2s lhs rhs =
     (if map_key_2s.c lhs \<noteq> map_key_2s.c rhs then map_key_2s.c lhs < map_key_2s.c rhs
      else if \<not> string_eq (map_key_2s.a lhs) (map_key_2s.a rhs)
        then string_less (map_key_2s.a lhs) (map_key_2s.a rhs)
      else string_less (map_key_2s.b lhs) (map_key_2s.b rhs))"

definition Compare_1s :: "map_key_1s \<Rightarrow> map_key_1s \<Rightarrow> bool" where
  "Compare_1s lhs rhs =
     (if map_key_1s.c lhs \<noteq> map_key_1s.c rhs then map_key_1s.c lhs < map_key_1s.c rhs
      else string_less (map_key_1s.a lhs) (map_key_1s.a rhs))"

subsection \<open>Calls, with their outcome and the operands afterwards\<close>

text \<open>
  A call of \<^verbatim>\<open>operator==\<close> is a function from the operand objects, the pair of
  \<^verbatim>\<open>*this\<close> and \<^verbatim>\<open>other\<close>, to an outcome and the operand objects after the call. The
  outcome is \<open>Inr\<close> of the returned value, or \<open>Inl\<close> of an error when an exception leaves
  the call. Each \<^verbatim>\<open>return\<close> statement of \<^verbatim>\<open>operator==\<close> is a branch; the operator is a
  \<^verbatim>\<open>const\<close> member taking \<^verbatim>\<open>other\<close> by \<^verbatim>\<open>const\<close> reference, and no statement of it
  assigns to a field or throws.
\<close>

datatype error = Exception

definition map_key_2s_operator_eq_call ::
    "map_key_2s \<times> map_key_2s \<Rightarrow> (error + bool) \<times> (map_key_2s \<times> map_key_2s)" where
  "map_key_2s_operator_eq_call s =
     (if map_key_2s.c (fst s) \<noteq> map_key_2s.c (snd s) then (Inr False, s)
      else (Inr (string_eq (map_key_2s.a (fst s)) (map_key_2s.a (snd s))
                 \<and> string_eq (map_key_2s.b (fst s)) (map_key_2s.b (snd s))), s))"

definition map_key_1s_operator_eq_call ::
    "map_key_1s \<times> map_key_1s \<Rightarrow> (error + bool) \<times> (map_key_1s \<times> map_key_1s)" where
  "map_key_1s_operator_eq_call s =
     (if map_key_1s.c (fst s) \<noteq> map_key_1s.c (snd s) then (Inr False, s)
      else (Inr (string_eq (map_key_1s.a (fst s)) (map_key_1s.a (snd s))), s))"

subsection \<open>The metadata records\<close>

text \<open>
  \<^verbatim>\<open>rtwCAPI_Orientation\<close> is an enumeration of the vendor header \<^verbatim>\<open>rtw_capi.h\<close>, which
  is not part of this repository: it is the type parameter \<open>'ori\<close>. A \<^verbatim>\<open>std::vector\<close> is
  a list, in index order.
\<close>

record 'ori DataType =
  cDataType :: string
  pythonType :: string
  dims :: "ssize_t list"
  orientation :: 'ori

record 'ori ModelParam =
  model_param :: string
  data_type :: "'ori DataType"

record 'ori BlockParam =
  block_name :: string
  block_param :: string
  data_type :: "'ori DataType"

record 'ori Signal =
  block_name :: string
  signal_name :: string
  data_type :: "'ori DataType"

record 'ori ModelInfo =
  model_name :: string
  model_params :: "'ori ModelParam list"
  block_params :: "'ori BlockParam list"
  signals :: "'ori Signal list"

text \<open>
  \<^verbatim>\<open>ModelInfo\<close> has no constructor of its own: it is an aggregate, built by giving its four
  members, each copied into the new object.
\<close>

definition ModelInfo_construct ::
    "string \<Rightarrow> 'ori ModelParam list \<Rightarrow> 'ori BlockParam list \<Rightarrow> 'ori Signal list
     \<Rightarrow> 'ori ModelInfo" where
  "ModelInfo_construct name mps bps sgs =
     \<lparr>model_name = name, model_params = mps, block_params = bps, signals = sgs\<rparr>"

section \<open>Helper lemmas\<close>

subsection \<open>String comparison and the fields that \<^verbatim>\<open>operator==\<close> reads\<close>

lemma string_eq_iff: "string_eq s t \<longleftrightarrow> s = t"
  by (induction s t rule: string_eq.induct) simp_all

lemma map_key_1s_operator_eq_fields:
  "map_key_1s_operator_eq k1 k2 \<longleftrightarrow>
     map_key_1s.c k1 = map_key_1s.c k2 \<and> map_key_1s.a k1 = map_key_1s.a k2"
  by (simp add: map_key_1s_operator_eq_def string_eq_iff)

lemma map_key_2s_operator_eq_fields:
  "map_key_2s_operator_eq k1 k2 \<longleftrightarrow>
     map_key_2s.c k1 = map_key_2s.c k2 \<and> map_key_2s.a k1 = map_key_2s.a k2
     \<and> map_key_2s.b k1 = map_key_2s.b k2"
  by (simp add: map_key_2s_operator_eq_def string_eq_iff)

lemma map_key_1s_operator_eq_call_value:
  "fst (map_key_1s_operator_eq_call (k1, k2)) = Inr (map_key_1s_operator_eq k1 k2)"
  by (simp add: map_key_1s_operator_eq_call_def map_key_1s_operator_eq_def)

lemma map_key_2s_operator_eq_call_value:
  "fst (map_key_2s_operator_eq_call (k1, k2)) = Inr (map_key_2s_operator_eq k1 k2)"
  by (simp add: map_key_2s_operator_eq_call_def map_key_2s_operator_eq_def)

lemma map_key_1s_operator_eq_call_returns:
  "\<exists>r. map_key_1s_operator_eq_call (k1, k2) = (Inr r, (k1, k2))"
  by (cases "map_key_1s.c k1 = map_key_1s.c k2")
     (auto simp add: map_key_1s_operator_eq_call_def)

lemma map_key_2s_operator_eq_call_returns:
  "\<exists>r. map_key_2s_operator_eq_call (k1, k2) = (Inr r, (k1, k2))"
  by (cases "map_key_2s.c k1 = map_key_2s.c k2")
     (auto simp add: map_key_2s_operator_eq_call_def)

subsection \<open>The lexicographic order on strings and on keys\<close>

lemma string_less_irrefl: "\<not> string_less s s"
  by (induction s) simp_all

lemma string_less_trans:
  "string_less s t \<Longrightarrow> string_less t u \<Longrightarrow> string_less s u"
proof (induction s t arbitrary: u rule: string_less.induct)
  case 1
  then show ?case by simp
next
  case (2 y ys)
  then show ?case by (cases u) simp_all
next
  case (3 x xs)
  then show ?case by simp
next
  case (4 x xs y ys)
  show ?case
  proof (cases u)
    case Nil
    with "4.prems" show ?thesis by simp
  next
    case (Cons z zs)
    with "4.prems" "4.IH" show ?thesis
      by (auto split: if_splits)
  qed
qed

lemma string_less_asym: "string_less s t \<Longrightarrow> \<not> string_less t s"
  using string_less_trans [of s t s] string_less_irrefl [of s] by blast

lemma string_less_total:
  "\<not> string_less s t \<Longrightarrow> \<not> string_less t s \<Longrightarrow> s = t"
  by (induction s t rule: string_less.induct) (auto split: if_splits)

lemma Compare_1s_lex:
  "Compare_1s k1 k2 \<longleftrightarrow>
     map_key_1s.c k1 < map_key_1s.c k2
     \<or> (map_key_1s.c k1 = map_key_1s.c k2 \<and> string_less (map_key_1s.a k1) (map_key_1s.a k2))"
  by (auto simp: Compare_1s_def)

lemma Compare_2s_lex:
  "Compare_2s k1 k2 \<longleftrightarrow>
     map_key_2s.c k1 < map_key_2s.c k2
     \<or> (map_key_2s.c k1 = map_key_2s.c k2 \<and>
         (string_less (map_key_2s.a k1) (map_key_2s.a k2)
          \<or> (map_key_2s.a k1 = map_key_2s.a k2
              \<and> string_less (map_key_2s.b k1) (map_key_2s.b k2))))"
  by (auto simp: Compare_2s_def string_eq_iff string_less_irrefl)

lemma Compare_1s_irrefl: "\<not> Compare_1s k k"
  by (simp add: Compare_1s_lex string_less_irrefl)

lemma Compare_1s_asym: "Compare_1s k1 k2 \<Longrightarrow> \<not> Compare_1s k2 k1"
  by (auto simp: Compare_1s_lex dest: string_less_asym)

lemma Compare_1s_trans: "Compare_1s k1 k2 \<Longrightarrow> Compare_1s k2 k3 \<Longrightarrow> Compare_1s k1 k3"
  by (auto simp: Compare_1s_lex intro: string_less_trans)

lemma Compare_1s_incomparable:
  "\<not> Compare_1s k1 k2 \<and> \<not> Compare_1s k2 k1 \<longleftrightarrow> map_key_1s_operator_eq k1 k2"
  by (auto simp: Compare_1s_lex map_key_1s_operator_eq_fields string_less_irrefl
           dest: string_less_total)

lemma Compare_2s_irrefl: "\<not> Compare_2s k k"
  by (simp add: Compare_2s_lex string_less_irrefl)

lemma Compare_2s_asym: "Compare_2s k1 k2 \<Longrightarrow> \<not> Compare_2s k2 k1"
  by (auto simp: Compare_2s_lex string_less_irrefl dest: string_less_asym)

lemma Compare_2s_trans: "Compare_2s k1 k2 \<Longrightarrow> Compare_2s k2 k3 \<Longrightarrow> Compare_2s k1 k3"
  by (auto simp: Compare_2s_lex intro: string_less_trans)

lemma Compare_2s_incomparable:
  "\<not> Compare_2s k1 k2 \<and> \<not> Compare_2s k2 k1 \<longleftrightarrow> map_key_2s_operator_eq k1 k2"
  by (auto simp: Compare_2s_lex map_key_2s_operator_eq_fields string_less_irrefl
           dest: string_less_total)


section \<open>Equality of keys\<close>

text \<open>
  Claim C1. Two \<^verbatim>\<open>map_key_1s\<close> keys compare equal exactly when their mapping-info
  pointers hold the same address and their name strings are equal. In particular two keys
  with equal names and different pointers compare unequal.
\<close>

theorem map_key_1s_eq_iff_same_handle_and_name:
  "(map_key_1s_operator_eq k1 k2 \<longleftrightarrow>
      (map_key_1s.c k1 = map_key_1s.c k2 \<and> map_key_1s.a k1 = map_key_1s.a k2))
   \<and> (map_key_1s.a k1 = map_key_1s.a k2 \<and> map_key_1s.c k1 \<noteq> map_key_1s.c k2
        \<longrightarrow> \<not> map_key_1s_operator_eq k1 k2)"
  by (simp add: map_key_1s_operator_eq_fields)

text \<open>
  The example of the specification: handle \<open>H1\<close> at address \<open>0x1000\<close>, handle \<open>H2\<close> at
  \<open>0x2000\<close>.
\<close>

theorem map_key_1s_eq_iff_same_handle_and_name_witness:
  "map_key_1s_operator_eq \<lparr>a = ''signal_x'', c = 0x1000\<rparr> \<lparr>a = ''signal_x'', c = 0x1000\<rparr>
   \<and> \<not> map_key_1s_operator_eq \<lparr>a = ''signal_x'', c = 0x1000\<rparr> \<lparr>a = ''signal_x'', c = 0x2000\<rparr>
   \<and> \<not> map_key_1s_operator_eq \<lparr>a = ''signal_x'', c = 0x1000\<rparr> \<lparr>a = ''signal_y'', c = 0x1000\<rparr>"
  using map_key_1s_eq_iff_same_handle_and_name
          [of "\<lparr>a = ''signal_x'', c = 0x1000\<rparr>" "\<lparr>a = ''signal_x'', c = 0x1000\<rparr>"]
        map_key_1s_eq_iff_same_handle_and_name
          [of "\<lparr>a = ''signal_x'', c = 0x1000\<rparr>" "\<lparr>a = ''signal_x'', c = 0x2000\<rparr>"]
        map_key_1s_eq_iff_same_handle_and_name
          [of "\<lparr>a = ''signal_x'', c = 0x1000\<rparr>" "\<lparr>a = ''signal_y'', c = 0x1000\<rparr>"]
  by simp

text \<open>
  Claim C2. Two \<^verbatim>\<open>map_key_2s\<close> keys compare equal exactly when their mapping-info
  pointers hold the same address and both name strings are equal, component by component.
\<close>

theorem map_key_2s_eq_iff_same_handle_and_names:
  "map_key_2s_operator_eq k1 k2 \<longleftrightarrow>
     (map_key_2s.c k1 = map_key_2s.c k2
      \<and> map_key_2s.a k1 = map_key_2s.a k2 \<and> map_key_2s.b k1 = map_key_2s.b k2)"
  by (simp add: map_key_2s_operator_eq_fields)

text \<open>
  Claim C9. For both key classes \<^verbatim>\<open>operator==\<close> is an equivalence relation: every key
  equals itself, \<open>k1 == k2\<close> gives \<open>k2 == k1\<close>, and \<open>k1 == k2\<close> with \<open>k2 == k3\<close> gives
  \<open>k1 == k3\<close>.
\<close>

theorem operator_eq_equivalence:
  "map_key_1s_operator_eq k1 k1
   \<and> (map_key_1s_operator_eq k1 k2 \<longrightarrow> map_key_1s_operator_eq k2 k1)
   \<and> (map_key_1s_operator_eq k1 k2 \<and> map_key_1s_operator_eq k2 k3
        \<longrightarrow> map_key_1s_operator_eq k1 k3)
   \<and> map_key_2s_operator_eq j1 j1
   \<and> (map_key_2s_operator_eq j1 j2 \<longrightarrow> map_key_2s_operator_eq j2 j1)
   \<and> (map_key_2s_operator_eq j1 j2 \<and> map_key_2s_operator_eq j2 j3
        \<longrightarrow> map_key_2s_operator_eq j1 j3)"
  by (simp add: map_key_1s_operator_eq_fields map_key_2s_operator_eq_fields)

theorem operator_eq_equivalence_witness:
  "map_key_1s_operator_eq \<lparr>a = ''gain'', c = 0x7F00\<rparr> \<lparr>a = ''gain'', c = 0x7F00\<rparr>
   \<and> map_key_2s_operator_eq \<lparr>map_key_2s.a = ''blk'', b = ''out'', map_key_2s.c = 0x7F00\<rparr>
         \<lparr>map_key_2s.a = ''blk'', b = ''out'', map_key_2s.c = 0x7F00\<rparr>"
proof -
  let ?k = "\<lparr>a = ''gain'', c = 0x7F00\<rparr> :: map_key_1s"
  let ?j = "\<lparr>map_key_2s.a = ''blk'', b = ''out'', map_key_2s.c = 0x7F00\<rparr> :: map_key_2s"
  have h1: "map_key_1s_operator_eq ?k ?k"
    by (simp add: map_key_1s_operator_eq_def)
  have h2: "map_key_2s_operator_eq ?j ?j"
    by (simp add: map_key_2s_operator_eq_def)
  from h1 h2 operator_eq_equivalence [of ?k ?k ?k ?j ?j ?j] show ?thesis
    by blast
qed

text \<open>
  Claim C10. Evaluating \<^verbatim>\<open>operator==\<close> leaves both operands as they were: after the call
  the two key objects, and so each name string and the mapping-info pointer of each, are
  the ones before the call.
\<close>

theorem operator_eq_leaves_operands_unchanged:
  "snd (map_key_1s_operator_eq_call (k1, k2)) = (k1, k2)
   \<and> map_key_1s.a (fst (snd (map_key_1s_operator_eq_call (k1, k2)))) = map_key_1s.a k1
   \<and> map_key_1s.c (fst (snd (map_key_1s_operator_eq_call (k1, k2)))) = map_key_1s.c k1
   \<and> map_key_1s.a (snd (snd (map_key_1s_operator_eq_call (k1, k2)))) = map_key_1s.a k2
   \<and> map_key_1s.c (snd (snd (map_key_1s_operator_eq_call (k1, k2)))) = map_key_1s.c k2
   \<and> snd (map_key_2s_operator_eq_call (j1, j2)) = (j1, j2)
   \<and> map_key_2s.a (fst (snd (map_key_2s_operator_eq_call (j1, j2)))) = map_key_2s.a j1
   \<and> map_key_2s.b (fst (snd (map_key_2s_operator_eq_call (j1, j2)))) = map_key_2s.b j1
   \<and> map_key_2s.c (fst (snd (map_key_2s_operator_eq_call (j1, j2)))) = map_key_2s.c j1
   \<and> map_key_2s.a (snd (snd (map_key_2s_operator_eq_call (j1, j2)))) = map_key_2s.a j2
   \<and> map_key_2s.b (snd (snd (map_key_2s_operator_eq_call (j1, j2)))) = map_key_2s.b j2
   \<and> map_key_2s.c (snd (snd (map_key_2s_operator_eq_call (j1, j2)))) = map_key_2s.c j2"
  by (simp add: map_key_1s_operator_eq_call_def map_key_2s_operator_eq_call_def)

section \<open>Ordering of keys\<close>

text \<open>
  Claim C5. For both key classes \<^verbatim>\<open>Compare\<close> is a strict weak ordering, irreflexive,
  asymmetric and transitive, and it agrees with \<^verbatim>\<open>operator==\<close>: neither of two keys is
  ordered before the other exactly when they compare equal.
\<close>

theorem Compare_strict_weak_ordering:
  "\<not> Compare_1s k1 k1
   \<and> (Compare_1s k1 k2 \<longrightarrow> \<not> Compare_1s k2 k1)
   \<and> (Compare_1s k1 k2 \<and> Compare_1s k2 k3 \<longrightarrow> Compare_1s k1 k3)
   \<and> (\<not> Compare_1s k1 k2 \<and> \<not> Compare_1s k2 k1 \<and> \<not> Compare_1s k2 k3 \<and> \<not> Compare_1s k3 k2
        \<longrightarrow> \<not> Compare_1s k1 k3 \<and> \<not> Compare_1s k3 k1)
   \<and> ((\<not> Compare_1s k1 k2 \<and> \<not> Compare_1s k2 k1) = map_key_1s_operator_eq k1 k2)
   \<and> \<not> Compare_2s j1 j1
   \<and> (Compare_2s j1 j2 \<longrightarrow> \<not> Compare_2s j2 j1)
   \<and> (Compare_2s j1 j2 \<and> Compare_2s j2 j3 \<longrightarrow> Compare_2s j1 j3)
   \<and> (\<not> Compare_2s j1 j2 \<and> \<not> Compare_2s j2 j1 \<and> \<not> Compare_2s j2 j3 \<and> \<not> Compare_2s j3 j2
        \<longrightarrow> \<not> Compare_2s j1 j3 \<and> \<not> Compare_2s j3 j1)
   \<and> ((\<not> Compare_2s j1 j2 \<and> \<not> Compare_2s j2 j1) = map_key_2s_operator_eq j1 j2)"
proof -
  have irrefl1: "\<not> Compare_1s k1 k1"
    by (rule Compare_1s_irrefl)
  have asym1: "Compare_1s k1 k2 \<longrightarrow> \<not> Compare_1s k2 k1"
    using Compare_1s_asym by blast
  have trans1: "Compare_1s k1 k2 \<and> Compare_1s k2 k3 \<longrightarrow> Compare_1s k1 k3"
    using Compare_1s_trans by blast
  have equiv1: "\<not> Compare_1s k1 k2 \<and> \<not> Compare_1s k2 k1 \<and> \<not> Compare_1s k2 k3 \<and> \<not> Compare_1s k3 k2
        \<longrightarrow> \<not> Compare_1s k1 k3 \<and> \<not> Compare_1s k3 k1"
  proof (intro impI)
    assume "\<not> Compare_1s k1 k2 \<and> \<not> Compare_1s k2 k1 \<and> \<not> Compare_1s k2 k3 \<and> \<not> Compare_1s k3 k2"
    then have "map_key_1s_operator_eq k1 k2" and "map_key_1s_operator_eq k2 k3"
      using Compare_1s_incomparable by blast+
    then have "map_key_1s_operator_eq k1 k3"
      by (simp add: map_key_1s_operator_eq_fields)
    then show "\<not> Compare_1s k1 k3 \<and> \<not> Compare_1s k3 k1"
      using Compare_1s_incomparable by blast
  qed
  have eq1: "(\<not> Compare_1s k1 k2 \<and> \<not> Compare_1s k2 k1) = map_key_1s_operator_eq k1 k2"
    by (rule Compare_1s_incomparable)
  have irrefl2: "\<not> Compare_2s j1 j1"
    by (rule Compare_2s_irrefl)
  have asym2: "Compare_2s j1 j2 \<longrightarrow> \<not> Compare_2s j2 j1"
    using Compare_2s_asym by blast
  have trans2: "Compare_2s j1 j2 \<and> Compare_2s j2 j3 \<longrightarrow> Compare_2s j1 j3"
    using Compare_2s_trans by blast
  have equiv2: "\<not> Compare_2s j1 j2 \<and> \<not> Compare_2s j2 j1 \<and> \<not> Compare_2s j2 j3 \<and> \<not> Compare_2s j3 j2
        \<longrightarrow> \<not> Compare_2s j1 j3 \<and> \<not> Compare_2s j3 j1"
  proof (intro impI)
    assume "\<not> Compare_2s j1 j2 \<and> \<not> Compare_2s j2 j1 \<and> \<not> Compare_2s j2 j3 \<and> \<not> Compare_2s j3 j2"
    then have "map_key_2s_operator_eq j1 j2" and "map_key_2s_operator_eq j2 j3"
      using Compare_2s_incomparable by blast+
    then have "map_key_2s_operator_eq j1 j3"
      by (simp add: map_key_2s_operator_eq_fields)
    then show "\<not> Compare_2s j1 j3 \<and> \<not> Compare_2s j3 j1"
      using Compare_2s_incomparable by blast
  qed
  have eq2: "(\<not> Compare_2s j1 j2 \<and> \<not> Compare_2s j2 j1) = map_key_2s_operator_eq j1 j2"
    by (rule Compare_2s_incomparable)
  from irrefl1 asym1 trans1 equiv1 eq1 irrefl2 asym2 trans2 equiv2 eq2
  show ?thesis by (intro conjI)
qed

text \<open>
  Three keys in increasing order (by handle, then by name), and one key compared with an
  equal one.
\<close>

theorem Compare_strict_weak_ordering_witness:
  "Compare_1s \<lparr>a = ''gain'', c = 0x7F00\<rparr> \<lparr>a = ''rate'', c = 0x8F00\<rparr>
   \<and> \<not> Compare_1s \<lparr>a = ''gain'', c = 0x8F00\<rparr> \<lparr>a = ''gain'', c = 0x7F00\<rparr>
   \<and> \<not> Compare_1s \<lparr>a = ''gain'', c = 0x7F00\<rparr> \<lparr>a = ''gain'', c = 0x7F00\<rparr>
   \<and> Compare_2s \<lparr>map_key_2s.a = ''blk'', b = ''in'', map_key_2s.c = 0x7F00\<rparr>
        \<lparr>map_key_2s.a = ''blk'', b = ''up'', map_key_2s.c = 0x7F00\<rparr>
   \<and> \<not> Compare_2s \<lparr>map_key_2s.a = ''blk'', b = ''out'', map_key_2s.c = 0x7F00\<rparr>
        \<lparr>map_key_2s.a = ''blk'', b = ''in'', map_key_2s.c = 0x7F00\<rparr>
   \<and> map_key_2s_operator_eq \<lparr>map_key_2s.a = ''blk'', b = ''in'', map_key_2s.c = 0x7F00\<rparr>
        \<lparr>map_key_2s.a = ''blk'', b = ''in'', map_key_2s.c = 0x7F00\<rparr>"
proof -
  let ?k1 = "\<lparr>a = ''gain'', c = 0x7F00\<rparr> :: map_key_1s"
  let ?k2 = "\<lparr>a = ''gain'', c = 0x8F00\<rparr> :: map_key_1s"
  let ?k3 = "\<lparr>a = ''rate'', c = 0x8F00\<rparr> :: map_key_1s"
  let ?j1 = "\<lparr>map_key_2s.a = ''blk'', b = ''in'', map_key_2s.c = 0x7F00\<rparr> :: map_key_2s"
  let ?j2 = "\<lparr>map_key_2s.a = ''blk'', b = ''out'', map_key_2s.c = 0x7F00\<rparr> :: map_key_2s"
  let ?j3 = "\<lparr>map_key_2s.a = ''blk'', b = ''up'', map_key_2s.c = 0x7F00\<rparr> :: map_key_2s"
  have a1: "Compare_1s ?k1 ?k2" by (simp add: Compare_1s_def)
  have a2: "Compare_1s ?k2 ?k3" by (simp add: Compare_1s_def)
  have b1: "Compare_2s ?j1 ?j2" by (simp add: Compare_2s_def)
  have b2: "Compare_2s ?j2 ?j3" by (simp add: Compare_2s_def)
  have n1: "\<not> Compare_1s ?k1 ?k1" by (simp add: Compare_1s_def)
  have n2: "\<not> Compare_2s ?j1 ?j1" by (simp add: Compare_2s_def)
  from a1 a2 b1 b2 Compare_strict_weak_ordering [of ?k1 ?k2 ?k3 ?j1 ?j2 ?j3]
  have ordered: "Compare_1s ?k1 ?k3 \<and> \<not> Compare_1s ?k2 ?k1
      \<and> Compare_2s ?j1 ?j3 \<and> \<not> Compare_2s ?j2 ?j1"
    by blast
  from n1 n2 Compare_strict_weak_ordering [of ?k1 ?k1 ?k1 ?j1 ?j1 ?j1]
  have equal: "\<not> Compare_1s ?k1 ?k1 \<and> map_key_2s_operator_eq ?j1 ?j1"
    by blast
  from ordered equal show ?thesis by blast
qed

section \<open>The metadata records\<close>

text \<open>
  Claim C6. A \<^verbatim>\<open>ModelInfo\<close> built from a model name and three sequences gives back the
  name and each sequence as supplied: the same length, and at every index the element
  supplied there, with its names and its \<^verbatim>\<open>DataType\<close> unchanged.
\<close>

theorem ModelInfo_round_trip:
  "model_name (ModelInfo_construct name mps bps sgs) = name
   \<and> model_params (ModelInfo_construct name mps bps sgs) = mps
   \<and> block_params (ModelInfo_construct name mps bps sgs) = bps
   \<and> signals (ModelInfo_construct name mps bps sgs) = sgs
   \<and> (i < length mps \<longrightarrow>
        model_param (model_params (ModelInfo_construct name mps bps sgs) ! i)
          = model_param (mps ! i)
        \<and> ModelParam.data_type (model_params (ModelInfo_construct name mps bps sgs) ! i)
          = ModelParam.data_type (mps ! i))
   \<and> (i < length bps \<longrightarrow>
        BlockParam.block_name (block_params (ModelInfo_construct name mps bps sgs) ! i)
          = BlockParam.block_name (bps ! i)
        \<and> block_param (block_params (ModelInfo_construct name mps bps sgs) ! i)
          = block_param (bps ! i)
        \<and> BlockParam.data_type (block_params (ModelInfo_construct name mps bps sgs) ! i)
          = BlockParam.data_type (bps ! i))
   \<and> (i < length sgs \<longrightarrow>
        Signal.block_name (signals (ModelInfo_construct name mps bps sgs) ! i)
          = Signal.block_name (sgs ! i)
        \<and> signal_name (signals (ModelInfo_construct name mps bps sgs) ! i)
          = signal_name (sgs ! i)
        \<and> Signal.data_type (signals (ModelInfo_construct name mps bps sgs) ! i)
          = Signal.data_type (sgs ! i))"
  by (simp add: ModelInfo_construct_def)

theorem ModelInfo_round_trip_witness:
  "model_params (ModelInfo_construct ''ctrl''
      [\<lparr>model_param = ''Kp'', ModelParam.data_type =
          \<lparr>cDataType = ''double'', pythonType = ''float64'', dims = [1, 1],
           orientation = (0::nat)\<rparr>\<rparr>]
      [\<lparr>BlockParam.block_name = ''ctrl/Gain'', block_param = ''Gain'',
        BlockParam.data_type =
          \<lparr>cDataType = ''float'', pythonType = ''float32'', dims = [3, 1],
           orientation = 1\<rparr>\<rparr>]
      [\<lparr>Signal.block_name = ''ctrl/Sum'', signal_name = ''err'', Signal.data_type =
          \<lparr>cDataType = ''int'', pythonType = ''int32'', dims = [2, 2],
           orientation = 2\<rparr>\<rparr>]) ! 0
   = \<lparr>model_param = ''Kp'', ModelParam.data_type =
          \<lparr>cDataType = ''double'', pythonType = ''float64'', dims = [1, 1],
           orientation = (0::nat)\<rparr>\<rparr>
   \<and> dims (Signal.data_type (signals (ModelInfo_construct ''ctrl''
      [\<lparr>model_param = ''Kp'', ModelParam.data_type =
          \<lparr>cDataType = ''double'', pythonType = ''float64'', dims = [1, 1],
           orientation = (0::nat)\<rparr>\<rparr>]
      [\<lparr>BlockParam.block_name = ''ctrl/Gain'', block_param = ''Gain'',
        BlockParam.data_type =
          \<lparr>cDataType = ''float'', pythonType = ''float32'', dims = [3, 1],
           orientation = 1\<rparr>\<rparr>]
      [\<lparr>Signal.block_name = ''ctrl/Sum'', signal_name = ''err'', Signal.data_type =
          \<lparr>cDataType = ''int'', pythonType = ''int32'', dims = [2, 2],
           orientation = 2\<rparr>\<rparr>]) ! 0)) = [2, 2]"
  using ModelInfo_round_trip
    [where name = "''ctrl''" and i = 0
       and mps = "[\<lparr>model_param = ''Kp'', ModelParam.data_type =
          \<lparr>cDataType = ''double'', pythonType = ''float64'', dims = [1, 1],
           orientation = (0::nat)\<rparr>\<rparr>]"
       and bps = "[\<lparr>BlockParam.block_name = ''ctrl/Gain'', block_param = ''Gain'',
        BlockParam.data_type =
          \<lparr>cDataType = ''float'', pythonType = ''float32'', dims = [3, 1],
           orientation = 1\<rparr>\<rparr>]"
       and sgs = "[\<lparr>Signal.block_name = ''ctrl/Sum'', signal_name = ''err'',
        Signal.data_type =
          \<lparr>cDataType = ''int'', pythonType = ''int32'', dims = [2, 2],
           orientation = 2\<rparr>\<rparr>]"]
  by simp

end
